theory Spec2Isabelle
  imports Complex_Main "HOL-Library.Word"
begin

section \<open>The timer of i\_time.cpp\<close>

text \<open>
  The three file-level variables of \<^verbatim>\<open>i_time.cpp\<close> form the state. They are
  \<^verbatim>\<open>uint64_t\<close>, so every operation on them wraps modulo \<open>2 ^ 64\<close>; a C++
  \<^verbatim>\<open>int\<close> is a \<open>32 word\<close> read with \<open>sint\<close>.

  \<^verbatim>\<open>GetClockTimeNS()\<close> reads the steady clock. A function that reads it takes the
  reading as an argument (\<open>now\<close>), one argument per read in the order of the reads;
  the loop of \<^verbatim>\<open>I_WaitForTic\<close> takes the sequence of the readings its iterations see.

  \<^verbatim>\<open>TICRATE\<close> comes from \<^verbatim>\<open>doomdef.h\<close>, which is not part of the sources at hand:
  it is the parameter \<open>tr\<close> (an \<^verbatim>\<open>int\<close>) of the functions that use it.
\<close>

type_synonym u64 = "64 word"
type_synonym u32 = "32 word"
type_synonym i32 = "32 word"

record timer =
  FirstFrameStartTime :: u64
  CurrentFrameStartTime :: u64
  FreezeTime :: u64

text \<open>Static storage is zero-initialised.\<close>

definition startup :: timer where
  "startup = \<lparr>FirstFrameStartTime = 0, CurrentFrameStartTime = 0, FreezeTime = 0\<rparr>"

subsection \<open>Unit conversions\<close>

definition MSToNS :: "u32 \<Rightarrow> u64" where
  "MSToNS ms = ucast ms * 1000000"

definition NSToMS :: "u64 \<Rightarrow> u32" where
  "NSToMS ns = ucast (ns div 1000000)"

text \<open>
  In \<^verbatim>\<open>ns * TICRATE / 1'000'000'000\<close> the \<^verbatim>\<open>int\<close> operands are converted to
  \<^verbatim>\<open>uint64_t\<close> (sign extension, \<open>scast\<close>); the cast to \<^verbatim>\<open>int\<close> keeps the low 32 bits.
\<close>

definition NSToTic :: "i32 \<Rightarrow> u64 \<Rightarrow> i32" where
  "NSToTic tr ns = ucast (ns * scast tr div 1000000000)"

definition TicToNS :: "i32 \<Rightarrow> i32 \<Rightarrow> u64" where
  "TicToNS tr tic = scast tic * 1000000000 div scast tr"

subsection \<open>Operations\<close>

definition I_SetFrameTime :: "u64 \<Rightarrow> timer \<Rightarrow> timer" where
  "I_SetFrameTime now s =
     (if FreezeTime s = 0 then
        (let s1 = s\<lparr>CurrentFrameStartTime := now\<rparr>
         in if FirstFrameStartTime s1 = 0
            then s1\<lparr>FirstFrameStartTime := CurrentFrameStartTime s1\<rparr>
            else s1)
      else s)"

text \<open>
  \<^verbatim>\<open>I_WaitVBL\<close> sleeps and then takes a frame time; the sleep changes nothing but the
  clock, whose next reading is \<open>now\<close>.
\<close>

definition I_WaitVBL :: "i32 \<Rightarrow> u64 \<Rightarrow> timer \<Rightarrow> timer" where
  "I_WaitVBL count now s = I_SetFrameTime now s"

definition I_NSTime :: "u64 \<Rightarrow> timer \<Rightarrow> u64 \<times> timer" where
  "I_NSTime now s =
     (if FreezeTime s = 0 then
        (CurrentFrameStartTime s - FirstFrameStartTime s, s)
      else if FirstFrameStartTime s = 0 then
        (0, s\<lparr>FirstFrameStartTime := now\<rparr>)
      else
        (now - FirstFrameStartTime s, s))"

definition I_FPSTimeNS :: "u64 \<Rightarrow> timer \<Rightarrow> u64" where
  "I_FPSTimeNS now s = (if FreezeTime s = 0 then CurrentFrameStartTime s else now)"

definition I_MSTime :: "u64 \<Rightarrow> timer \<Rightarrow> u32 \<times> timer" where
  "I_MSTime now s = (case I_NSTime now s of (ns, s') \<Rightarrow> (NSToMS ns, s'))"

definition I_FPSTime :: "u64 \<Rightarrow> timer \<Rightarrow> u32" where
  "I_FPSTime now s = NSToMS (I_FPSTimeNS now s)"

definition I_GetTime :: "i32 \<Rightarrow> timer \<Rightarrow> i32" where
  "I_GetTime tr s = NSToTic tr (CurrentFrameStartTime s - FirstFrameStartTime s) + 1"

text \<open>
  \<^verbatim>\<open>I_GetTimeFrac\<close> divides two \<^verbatim>\<open>uint64_t\<close> differences as \<^verbatim>\<open>double\<close>. The model
  returns the exact quotient of the two integers; the rounding of \<^verbatim>\<open>double\<close> is not
  modelled. The pointer \<^verbatim>\<open>ms\<close> is an optional slot: \<open>None\<close> is the null pointer,
  \<open>Some v\<close> a slot that holds \<open>v\<close>. The result is the quotient and the slot afterwards.
\<close>

definition I_GetTimeFrac :: "i32 \<Rightarrow> u32 option \<Rightarrow> timer \<Rightarrow> real \<times> u32 option" where
  "I_GetTimeFrac tr ms s =
     (let currentTic = NSToTic tr (CurrentFrameStartTime s - FirstFrameStartTime s);
          ticStartTime = FirstFrameStartTime s + TicToNS tr currentTic;
          ticNextTime = FirstFrameStartTime s + TicToNS tr (currentTic + 1);
          ms' = (case ms of None \<Rightarrow> None | Some _ \<Rightarrow> Some (currentTic + 1))
      in (real (unat (CurrentFrameStartTime s - ticStartTime))
            / real (unat (ticNextTime - ticStartTime)), ms'))"

text \<open>
  \<^verbatim>\<open>I_FreezeTime(true)\<close> reads the clock once (\<open>now\<close>); \<^verbatim>\<open>I_FreezeTime(false)\<close>
  reads it once itself (\<open>now\<close>) and once more inside \<^verbatim>\<open>I_SetFrameTime\<close> (\<open>now'\<close>).
\<close>

definition I_FreezeTime :: "bool \<Rightarrow> u64 \<Rightarrow> u64 \<Rightarrow> timer \<Rightarrow> timer" where
  "I_FreezeTime frozen now now' s =
     (if frozen then s\<lparr>FreezeTime := now\<rparr>
      else
        (let s1 = s\<lparr>FirstFrameStartTime := FirstFrameStartTime s + (now - FreezeTime s)\<rparr>;
             s2 = s1\<lparr>FreezeTime := 0\<rparr>
         in I_SetFrameTime now' s2))"

text \<open>
  The loop of \<^verbatim>\<open>I_WaitForTic\<close>. \<open>clk 0\<close> is the reading the next \<^verbatim>\<open>I_SetFrameTime\<close>
  sees, \<open>clk 1\<close> the one after it, and so on. \<open>sleeps\<close> logs the argument of every
  \<^verbatim>\<open>sleep_for\<close> (in milliseconds). The loop need not end, so the result is an option:
  \<open>None\<close> is the loop that runs forever. The result holds the returned tic, the state
  and the log. The comparisons are those of \<^verbatim>\<open>int\<close> (\<open>sint\<close>); \<^verbatim>\<open>prevtic - time\<close> and
  the \<open>+ 1\<close> of \<^verbatim>\<open>I_GetTime\<close> are taken modulo \<open>2 ^ 32\<close> where C++ leaves signed
  overflow undefined.
\<close>

partial_function (option) I_WaitForTic ::
  "i32 \<Rightarrow> (nat \<Rightarrow> u64) \<Rightarrow> i32 \<Rightarrow> timer \<Rightarrow> i32 list \<Rightarrow> (i32 \<times> timer \<times> i32 list) option" where
  "I_WaitForTic tr clk prevtic s sleeps =
     (let time = I_GetTime tr s in
      if sint time \<le> sint prevtic then
        (let sleepTime = prevtic - time;
             sleeps' = (if 2 < sint sleepTime then sleeps @ [sleepTime - 2] else sleeps)
         in I_WaitForTic tr (\<lambda>i. clk (Suc i)) prevtic (I_SetFrameTime (clk 0) s) sleeps')
      else Some (time, s, sleeps))"

text \<open>The state after the first \<open>n\<close> iterations of that loop.\<close>

fun frames :: "(nat \<Rightarrow> u64) \<Rightarrow> nat \<Rightarrow> timer \<Rightarrow> timer" where
  "frames clk 0 s = s"
| "frames clk (Suc n) s = frames (\<lambda>i. clk (Suc i)) n (I_SetFrameTime (clk 0) s)"

subsection \<open>Runs of the timer\<close>

text \<open>
  The values \<^verbatim>\<open>I_GetTime\<close> returns after each of a sequence of calls of
  \<^verbatim>\<open>I_SetFrameTime\<close>, the calls seeing the clock readings \<open>cs\<close> in turn.
\<close>

fun snapshot_tics :: "i32 \<Rightarrow> u64 list \<Rightarrow> timer \<Rightarrow> i32 list" where
  "snapshot_tics tr [] s = []"
| "snapshot_tics tr (c # cs) s =
     (let s' = I_SetFrameTime c s in I_GetTime tr s' # snapshot_tics tr cs s')"

text \<open>
  The functions \<^verbatim>\<open>i_time.cpp\<close> exports, as operations on the state. \<open>exec\<close> gives
  the state an operation leaves, the operation reading the clock as \<open>clk 0\<close>,
  \<open>clk 1\<close>, ... in the order of its reads; \<open>None\<close> is \<^verbatim>\<open>I_WaitForTic\<close> not returning.
\<close>

datatype operation =
    Op_SetFrameTime
  | Op_WaitVBL i32
  | Op_WaitForTic i32
  | Op_NSTime
  | Op_FPSTimeNS
  | Op_MSTime
  | Op_FPSTime
  | Op_GetTime
  | Op_GetTimeFrac "u32 option"
  | Op_FreezeTime bool

fun exec :: "i32 \<Rightarrow> (nat \<Rightarrow> u64) \<Rightarrow> operation \<Rightarrow> timer \<Rightarrow> timer option" where
  "exec tr clk Op_SetFrameTime s = Some (I_SetFrameTime (clk 0) s)"
| "exec tr clk (Op_WaitVBL count) s = Some (I_WaitVBL count (clk 0) s)"
| "exec tr clk (Op_WaitForTic prevtic) s =
     (case I_WaitForTic tr clk prevtic s [] of
        None \<Rightarrow> None
      | Some (time, s', sleeps) \<Rightarrow> Some s')"
| "exec tr clk Op_NSTime s = Some (snd (I_NSTime (clk 0) s))"
| "exec tr clk Op_FPSTimeNS s = Some s"
| "exec tr clk Op_MSTime s = Some (snd (I_MSTime (clk 0) s))"
| "exec tr clk Op_FPSTime s = Some s"
| "exec tr clk Op_GetTime s = Some s"
| "exec tr clk (Op_GetTimeFrac ms) s = Some s"
| "exec tr clk (Op_FreezeTime frozen) s = Some (I_FreezeTime frozen (clk 0) (clk 1) s)"

section \<open>Conversions between words and numbers\<close>

lemma unat_ucast_64_32: "unat (ucast (x::u64) :: u32) = unat x mod 2 ^ 32"
  by transfer (simp add: take_bit_eq_mod nat_mod_distrib)

lemma sint_small:
  assumes "unat (w::i32) < 2147483648"
  shows "sint w = int (unat w)"
proof -
  have "uint w < 2147483648" using assms unfolding uint_nat by linarith
  then have "uint w < 2 ^ 31" by simp
  moreover have "- 2147483648 \<le> uint w" using uint_ge_0 [of w] by linarith
  then have "- (2 ^ 31) \<le> uint w" by simp
  ultimately have "signed_take_bit 31 (uint w) = uint w"
    by (rule signed_take_bit_int_eq_self [rotated])
  moreover have "sint w = signed_take_bit 31 (uint w)"
    using sint_uint [of w] by simp
  ultimately have "sint w = uint w" by simp
  then show ?thesis unfolding uint_nat .
qed

lemma unat_word_of_int_64: "unat (word_of_int k :: u64) = nat (take_bit 64 k)"
  by transfer simp

lemma unat_scast_nonneg:
  assumes "0 \<le> sint (tr::i32)"
  shows "unat (scast tr :: u64) = nat (sint tr)"
proof -
  have "sint tr < 2147483648" using sint_lt [of tr] by simp
  then have lt: "sint tr < 18446744073709551616" by linarith
  have "(scast tr :: u64) = word_of_int (sint tr)" by (rule scast_eq)
  then have "unat (scast tr :: u64) = nat (take_bit 64 (sint tr))"
    by (simp only: unat_word_of_int_64)
  moreover have "take_bit 64 (sint tr) = sint tr"
    using assms lt by (simp add: take_bit_int_eq_self)
  ultimately show ?thesis by simp
qed

lemma unat_NSToTic:
  assumes "0 \<le> sint tr" and "unat ns * nat (sint tr) < 18446744073709551616"
  shows "unat (NSToTic tr ns) = (unat ns * nat (sint tr) div 1000000000) mod 4294967296"
proof -
  have "unat ns * unat (scast tr :: u64) < 2 ^ LENGTH(64)"
    using assms by (simp add: unat_scast_nonneg)
  then have "unat (ns * scast tr) = unat ns * unat (scast tr :: u64)"
    by (simp only: unat_mult_lem [symmetric])
  then have "unat (ns * scast tr) = unat ns * nat (sint tr)"
    using assms(1) by (simp add: unat_scast_nonneg)
  then show ?thesis
    by (simp add: NSToTic_def unat_ucast_64_32 unat_div)
qed

lemma unat_NSToTic_small:
  assumes "0 \<le> sint tr" and "unat ns * nat (sint tr) div 1000000000 < 2147483648"
  shows "unat (NSToTic tr ns) = unat ns * nat (sint tr) div 1000000000"
proof -
  have "unat ns * nat (sint tr) < 2147483648 * 1000000000"
    using assms(2) by (simp add: div_less_iff_less_mult)
  then have lt: "unat ns * nat (sint tr) < 18446744073709551616" by linarith
  show ?thesis
    using unat_NSToTic [OF assms(1) lt] assms(2) by simp
qed

lemma sint_NSToTic_small:
  assumes "0 \<le> sint tr" and "unat ns * nat (sint tr) div 1000000000 < 2147483648"
  shows "sint (NSToTic tr ns) = int (unat ns * nat (sint tr) div 1000000000)"
  using sint_small [of "NSToTic tr ns"] unat_NSToTic_small [OF assms] assms(2) by simp

lemma unat_TicToNS:
  assumes "0 \<le> sint tr" and "unat tic < 2147483648"
  shows "unat (TicToNS tr tic) = unat tic * 1000000000 div nat (sint tr)"
proof -
  have s: "sint tic = int (unat tic)" using assms(2) by (rule sint_small)
  then have "0 \<le> sint tic" by simp
  then have "unat (scast tic :: u64) = nat (sint tic)" by (rule unat_scast_nonneg)
  then have c: "unat (scast tic :: u64) = unat tic" using s by simp
  have "unat tic * 1000000000 < 18446744073709551616" using assms(2) by linarith
  then have "unat (scast tic :: u64) * unat (1000000000 :: u64) < 2 ^ LENGTH(64)"
    using c by simp
  then have "unat (scast tic * 1000000000 :: u64) = unat (scast tic :: u64) * unat (1000000000 :: u64)"
    by (simp only: unat_mult_lem [symmetric])
  then have "unat (scast tic * 1000000000 :: u64) = unat tic * 1000000000"
    using c by simp
  then show ?thesis
    using assms(1) by (simp add: TicToNS_def unat_div unat_scast_nonneg)
qed

lemma unat_succ_i32:
  assumes "unat (w::i32) < 2147483647"
  shows "unat (w + 1) = unat w + 1"
proof -
  have "unat w + unat (1::i32) < 2 ^ LENGTH(32)" using assms by simp
  then have "unat (w + 1) = unat w + unat (1::i32)"
    by (simp only: unat_add_lem [symmetric])
  then show ?thesis by simp
qed

lemma sint_succ_i32:
  assumes "unat (w::i32) < 2147483647"
  shows "sint (w + 1) = int (unat w) + 1"
  using sint_small [of "w + 1"] unat_succ_i32 [OF assms] assms by simp

section \<open>Facts about the operations\<close>

lemma I_SetFrameTime_unfrozen:
  assumes "FreezeTime s = 0"
  shows "CurrentFrameStartTime (I_SetFrameTime c s) = c"
    and "FreezeTime (I_SetFrameTime c s) = 0"
    and "FirstFrameStartTime (I_SetFrameTime c s) =
      (if FirstFrameStartTime s = 0 then c else FirstFrameStartTime s)"
  using assms by (simp_all add: I_SetFrameTime_def Let_def)

lemma I_FreezeTime_False_fields:
  "FreezeTime (I_FreezeTime False now now' s) = 0"
  "CurrentFrameStartTime (I_FreezeTime False now now' s) = now'"
  "FirstFrameStartTime (I_FreezeTime False now now' s) =
     (if FirstFrameStartTime s + (now - FreezeTime s) = 0 then now'
      else FirstFrameStartTime s + (now - FreezeTime s))"
  by (simp_all add: I_FreezeTime_def I_SetFrameTime_def Let_def)

lemma first_frame_shift_nonzero:
  assumes "(f::u64) \<noteq> 0" and "f \<le> t1" and "t1 \<le> t2"
  shows "f + (t2 - t1) \<noteq> 0"
proof -
  have d: "unat (t2 - t1) = unat t2 - unat t1" using assms(3) by (rule unat_sub)
  have "unat f \<le> unat t1" "unat t1 \<le> unat t2"
    using assms(2,3) by (simp_all add: word_le_nat_alt)
  moreover have "unat t2 < 2 ^ LENGTH(64)" by (rule unsigned_less)
  ultimately have "unat f + unat (t2 - t1) < 2 ^ LENGTH(64)" using d by linarith
  then have "unat (f + (t2 - t1)) = unat f + unat (t2 - t1)"
    by (simp only: unat_add_lem [symmetric])
  moreover have "0 < unat f" using assms(1) by (simp add: unat_gt_0)
  ultimately have "0 < unat (f + (t2 - t1))" by linarith
  then show ?thesis by (simp add: unat_gt_0)
qed

lemma sint_I_GetTime:
  assumes "0 \<le> sint tr" and "FirstFrameStartTime s \<le> CurrentFrameStartTime s"
    and "(unat (CurrentFrameStartTime s) - unat (FirstFrameStartTime s)) * nat (sint tr)
           div 1000000000 < 2147483647"
  shows "sint (I_GetTime tr s) =
    int ((unat (CurrentFrameStartTime s) - unat (FirstFrameStartTime s)) * nat (sint tr)
           div 1000000000) + 1"
proof -
  let ?ns = "CurrentFrameStartTime s - FirstFrameStartTime s"
  have n: "unat ?ns = unat (CurrentFrameStartTime s) - unat (FirstFrameStartTime s)"
    using assms(2) by (rule unat_sub)
  have lt: "unat ?ns * nat (sint tr) div 1000000000 < 2147483648"
    using assms(3) n by simp
  have u: "unat (NSToTic tr ?ns) = unat ?ns * nat (sint tr) div 1000000000"
    using assms(1) lt by (rule unat_NSToTic_small)
  have "unat (NSToTic tr ?ns) < 2147483647" using u assms(3) n by simp
  then have "sint (NSToTic tr ?ns + 1) = int (unat (NSToTic tr ?ns)) + 1"
    by (rule sint_succ_i32)
  then show ?thesis using u n by (simp add: I_GetTime_def)
qed

lemma frames_frozen:
  assumes "FreezeTime s \<noteq> 0"
  shows "frames clk k s = s"
  using assms by (induction k arbitrary: clk) (simp_all add: I_SetFrameTime_def)

lemma I_WaitForTic_result:
  assumes "I_WaitForTic tr clk prevtic s sleeps = Some r"
  shows "\<exists>k. fst r = I_GetTime tr (frames clk k s) \<and> fst (snd r) = frames clk k s
      \<and> sint prevtic < sint (fst r)"
proof (rule I_WaitForTic.raw_induct
    [where P = "\<lambda>tr clk prevtic s sleeps r.
       \<exists>k. fst r = I_GetTime tr (frames clk k s) \<and> fst (snd r) = frames clk k s
         \<and> sint prevtic < sint (fst r)", OF _ assms])
  fix W t c p u sl v
  assume IH: "\<And>t c p u sl v. W t c p u sl = Some v \<Longrightarrow>
      \<exists>k. fst v = I_GetTime t (frames c k u) \<and> fst (snd v) = frames c k u
        \<and> sint p < sint (fst v)"
    and body: "(let time = I_GetTime t u in
      if sint time \<le> sint p then
        (let sleepTime = p - time;
             sleeps' = (if 2 < sint sleepTime then sl @ [sleepTime - 2] else sl)
         in W t (\<lambda>i. c (Suc i)) p (I_SetFrameTime (c 0) u) sleeps')
      else Some (time, u, sl)) = Some v"
  show "\<exists>k. fst v = I_GetTime t (frames c k u) \<and> fst (snd v) = frames c k u
        \<and> sint p < sint (fst v)"
  proof (cases "sint (I_GetTime t u) \<le> sint p")
    case True
    with body obtain sl' where "W t (\<lambda>i. c (Suc i)) p (I_SetFrameTime (c 0) u) sl' = Some v"
      by (auto simp: Let_def split: if_splits)
    from IH [OF this] obtain k where
      "fst v = I_GetTime t (frames (\<lambda>i. c (Suc i)) k (I_SetFrameTime (c 0) u))"
      "fst (snd v) = frames (\<lambda>i. c (Suc i)) k (I_SetFrameTime (c 0) u)"
      "sint p < sint (fst v)"
      by blast
    then have "fst v = I_GetTime t (frames c (Suc k) u) \<and> fst (snd v) = frames c (Suc k) u
      \<and> sint p < sint (fst v)" by simp
    then show ?thesis by blast
  next
    case False
    with body have "v = (I_GetTime t u, u, sl)" by (auto simp: Let_def)
    with False have "fst v = I_GetTime t (frames c 0 u) \<and> fst (snd v) = frames c 0 u
      \<and> sint p < sint (fst v)" by simp
    then show ?thesis by blast
  qed
qed

section \<open>Elapsed time\<close>

text \<open>
  C5. \<^verbatim>\<open>I_NSTime\<close> (ElapsedNanos): when \<open>FreezeTime\<close> is 0 it returns
  \<open>CurrentFrameStartTime - FirstFrameStartTime\<close>, whatever the clock reads, and leaves the
  state as it is; when frozen with \<open>FirstFrameStartTime\<close> still 0 it stores the clock
  reading in \<open>FirstFrameStartTime\<close> and returns 0; when frozen with
  \<open>FirstFrameStartTime\<close> set it returns the clock reading minus \<open>FirstFrameStartTime\<close>.
\<close>

theorem I_NSTime_cases:
  "(FreezeTime s = 0 \<longrightarrow>
      I_NSTime now s = (CurrentFrameStartTime s - FirstFrameStartTime s, s)) \<and>
   (FreezeTime s \<noteq> 0 \<and> FirstFrameStartTime s = 0 \<longrightarrow>
      I_NSTime now s = (0, s\<lparr>FirstFrameStartTime := now\<rparr>)) \<and>
   (FreezeTime s \<noteq> 0 \<and> FirstFrameStartTime s \<noteq> 0 \<longrightarrow>
      I_NSTime now s = (now - FirstFrameStartTime s, s))"
  by (simp add: I_NSTime_def)

theorem I_NSTime_cases_witness:
  "I_NSTime 77 \<lparr>FirstFrameStartTime = 100, CurrentFrameStartTime = 350, FreezeTime = 0\<rparr>
     = (250, \<lparr>FirstFrameStartTime = 100, CurrentFrameStartTime = 350, FreezeTime = 0\<rparr>) \<and>
   I_NSTime 500 \<lparr>FirstFrameStartTime = 0, CurrentFrameStartTime = 0, FreezeTime = 400\<rparr>
     = (0, \<lparr>FirstFrameStartTime = 500, CurrentFrameStartTime = 0, FreezeTime = 400\<rparr>) \<and>
   I_NSTime 500 \<lparr>FirstFrameStartTime = 100, CurrentFrameStartTime = 350, FreezeTime = 400\<rparr>
     = (400, \<lparr>FirstFrameStartTime = 100, CurrentFrameStartTime = 350, FreezeTime = 400\<rparr>)"
  using I_NSTime_cases [of "\<lparr>FirstFrameStartTime = 100, CurrentFrameStartTime = 350, FreezeTime = 0\<rparr>" 77]
    I_NSTime_cases [of "\<lparr>FirstFrameStartTime = 0, CurrentFrameStartTime = 0, FreezeTime = 400\<rparr>" 500]
    I_NSTime_cases [of "\<lparr>FirstFrameStartTime = 100, CurrentFrameStartTime = 350, FreezeTime = 400\<rparr>" 500]
  by simp

section \<open>Frame snapshots while frozen\<close>

text \<open>
  C7. In a state whose \<open>FreezeTime\<close> is not 0, \<^verbatim>\<open>I_SetFrameTime\<close> (SnapshotFrameTime)
  leaves \<open>FirstFrameStartTime\<close>, \<open>CurrentFrameStartTime\<close> and \<open>FreezeTime\<close> unchanged.
\<close>

theorem I_SetFrameTime_frozen:
  assumes "FreezeTime s \<noteq> 0"
  shows "FirstFrameStartTime (I_SetFrameTime now s) = FirstFrameStartTime s
       \<and> CurrentFrameStartTime (I_SetFrameTime now s) = CurrentFrameStartTime s
       \<and> FreezeTime (I_SetFrameTime now s) = FreezeTime s"
  using assms by (simp add: I_SetFrameTime_def)

theorem I_SetFrameTime_frozen_witness:
  "FreezeTime \<lparr>FirstFrameStartTime = 100, CurrentFrameStartTime = 350, FreezeTime = 400\<rparr> \<noteq> 0
   \<and> I_SetFrameTime 900 \<lparr>FirstFrameStartTime = 100, CurrentFrameStartTime = 350, FreezeTime = 400\<rparr>
     = \<lparr>FirstFrameStartTime = 100, CurrentFrameStartTime = 350, FreezeTime = 400\<rparr>"
  using I_SetFrameTime_frozen
    [of "\<lparr>FirstFrameStartTime = 100, CurrentFrameStartTime = 350, FreezeTime = 400\<rparr>" 900]
  by simp

section \<open>Milliseconds\<close>

text \<open>
  C9. \<^verbatim>\<open>I_MSTime\<close> (MillisNow) is the value of \<^verbatim>\<open>I_NSTime\<close> divided by 1,000,000,
  rounded down and reduced modulo \<open>2 ^ 32\<close>; \<^verbatim>\<open>I_FPSTime\<close> (FPSMillis) is the same
  function of \<^verbatim>\<open>I_FPSTimeNS\<close>.
\<close>

theorem millis_floor_div:
  "unat (fst (I_MSTime now s)) = (unat (fst (I_NSTime now s)) div 1000000) mod 2 ^ 32
   \<and> snd (I_MSTime now s) = snd (I_NSTime now s)
   \<and> unat (I_FPSTime now s) = (unat (I_FPSTimeNS now s) div 1000000) mod 2 ^ 32"
  by (simp add: I_MSTime_def I_FPSTime_def NSToMS_def split_beta unat_ucast_64_32 unat_div)

section \<open>The current tic\<close>

lemma int_floor_form:
  assumes "0 \<le> t" and "(b::nat) \<le> a"
  shows "int ((a - b) * nat t div 1000000000) = (int a - int b) * t div 1000000000"
proof -
  have "int ((a - b) * nat t div 1000000000) = int ((a - b) * nat t) div 1000000000"
    by (simp add: zdiv_int)
  also have "int ((a - b) * nat t) = (int a - int b) * t"
    using assms by (simp add: of_nat_diff)
  finally show ?thesis .
qed

text \<open>
  C1, as stated, fails: with 35 tics per second the frame taken 28,571,428 ns after the
  first one is still in tic 1, since \<open>28571428 * 35 = 999999980 < 10 ^ 9\<close>.
\<close>

theorem GetTime_28571428_counterexample:
  "I_GetTime 35 (I_SetFrameTime (1000 + 28571428) (I_SetFrameTime 1000 startup)) = 1
   \<and> I_GetTime 35 (I_SetFrameTime (1000 + 28571428) (I_SetFrameTime 1000 startup)) \<noteq> 2"
  by (simp add: I_GetTime_def I_SetFrameTime_def startup_def NSToTic_def)

text \<open>
  C1, amended. \<^verbatim>\<open>I_GetTime\<close> (CurrentTic) does not look at \<open>FreezeTime\<close>. Where
  \<open>FirstFrameStartTime \<le> CurrentFrameStartTime\<close>, \<open>TICRATE\<close> is not negative and the
  tic fits an \<^verbatim>\<open>int\<close>, it returns
  \<open>floor ((CurrentFrameStartTime - FirstFrameStartTime) * TICRATE / 10 ^ 9) + 1\<close>.
  Right after the very first \<^verbatim>\<open>I_SetFrameTime\<close> it returns 1. With \<open>TICRATE = 35\<close> a
  frame 28,571,428 ns after the first one yields 1, a frame 28,571,429 ns after it yields
  2, and a frame 57,142,857 ns after it yields 2.
\<close>

theorem GetTime_formula:
  "(0 \<le> sint tr \<and> FirstFrameStartTime s \<le> CurrentFrameStartTime s \<and>
    (uint (CurrentFrameStartTime s) - uint (FirstFrameStartTime s)) * sint tr div 1000000000
       < 2147483647 \<longrightarrow>
    sint (I_GetTime tr s) =
      (uint (CurrentFrameStartTime s) - uint (FirstFrameStartTime s)) * sint tr div 1000000000 + 1)
   \<and> I_GetTime tr (I_SetFrameTime now startup) = 1
   \<and> (CurrentFrameStartTime s - FirstFrameStartTime s = 28571428 \<longrightarrow> I_GetTime 35 s = 1)
   \<and> (CurrentFrameStartTime s - FirstFrameStartTime s = 28571429 \<longrightarrow> I_GetTime 35 s = 2)
   \<and> (CurrentFrameStartTime s - FirstFrameStartTime s = 57142857 \<longrightarrow> I_GetTime 35 s = 2)"
proof -
  have formula: "sint (I_GetTime tr s) =
      (uint (CurrentFrameStartTime s) - uint (FirstFrameStartTime s)) * sint tr div 1000000000 + 1"
    if tr: "0 \<le> sint tr" and le: "FirstFrameStartTime s \<le> CurrentFrameStartTime s"
      and small: "(uint (CurrentFrameStartTime s) - uint (FirstFrameStartTime s)) * sint tr
         div 1000000000 < 2147483647"
  proof -
    have le': "unat (FirstFrameStartTime s) \<le> unat (CurrentFrameStartTime s)"
      using le by (simp add: word_le_nat_alt)
    have eq: "int ((unat (CurrentFrameStartTime s) - unat (FirstFrameStartTime s)) * nat (sint tr)
          div 1000000000)
        = (uint (CurrentFrameStartTime s) - uint (FirstFrameStartTime s)) * sint tr div 1000000000"
      unfolding uint_nat using tr le' by (rule int_floor_form)
    have "int ((unat (CurrentFrameStartTime s) - unat (FirstFrameStartTime s)) * nat (sint tr)
          div 1000000000) < 2147483647"
      using small eq by simp
    then have "(unat (CurrentFrameStartTime s) - unat (FirstFrameStartTime s)) * nat (sint tr)
          div 1000000000 < 2147483647"
      by linarith
    with tr le show ?thesis
      using eq by (simp only: sint_I_GetTime)
  qed
  have first: "I_GetTime tr (I_SetFrameTime now startup) = 1"
    by (simp add: I_GetTime_def I_SetFrameTime_def startup_def NSToTic_def)
  have e1: "CurrentFrameStartTime s - FirstFrameStartTime s = 28571428 \<Longrightarrow> I_GetTime 35 s = 1"
    by (simp add: I_GetTime_def NSToTic_def)
  have e2: "CurrentFrameStartTime s - FirstFrameStartTime s = 28571429 \<Longrightarrow> I_GetTime 35 s = 2"
    by (simp add: I_GetTime_def NSToTic_def)
  have e3: "CurrentFrameStartTime s - FirstFrameStartTime s = 57142857 \<Longrightarrow> I_GetTime 35 s = 2"
    by (simp add: I_GetTime_def NSToTic_def)
  from formula first e1 e2 e3 show ?thesis by blast
qed

theorem GetTime_formula_witness:
  "sint (I_GetTime 35 \<lparr>FirstFrameStartTime = 1000, CurrentFrameStartTime = 100001000, FreezeTime = 0\<rparr>) = 4
   \<and> I_GetTime 35 \<lparr>FirstFrameStartTime = 1000, CurrentFrameStartTime = 28572428, FreezeTime = 0\<rparr> = 1
   \<and> I_GetTime 35 \<lparr>FirstFrameStartTime = 1000, CurrentFrameStartTime = 28572429, FreezeTime = 0\<rparr> = 2
   \<and> I_GetTime 35 \<lparr>FirstFrameStartTime = 1000, CurrentFrameStartTime = 57143857, FreezeTime = 0\<rparr> = 2"
  using GetTime_formula [of 35 "\<lparr>FirstFrameStartTime = 1000, CurrentFrameStartTime = 100001000, FreezeTime = 0\<rparr>" 0]
    GetTime_formula [of 35 "\<lparr>FirstFrameStartTime = 1000, CurrentFrameStartTime = 28572428, FreezeTime = 0\<rparr>" 0]
    GetTime_formula [of 35 "\<lparr>FirstFrameStartTime = 1000, CurrentFrameStartTime = 28572429, FreezeTime = 0\<rparr>" 0]
    GetTime_formula [of 35 "\<lparr>FirstFrameStartTime = 1000, CurrentFrameStartTime = 57143857, FreezeTime = 0\<rparr>" 0]
  by simp

section \<open>The fraction of the current tic\<close>

lemma tic_start_le:
  assumes "0 < (T::nat)"
  shows "(n * T div K) * K div T \<le> n"
proof -
  have "(n * T div K) * K \<le> n * T" by (rule div_times_less_eq_dividend)
  then have "(n * T div K) * K div T \<le> n * T div T" by (rule div_le_mono)
  then show ?thesis using assms by simp
qed

lemma tic_next_ge:
  assumes "0 < (T::nat)" and "0 < K"
  shows "n \<le> (n * T div K + 1) * K div T"
proof -
  have "n * T < (n * T div K + 1) * K"
    using assms(2) by (simp add: dividend_less_div_times add.commute)
  then have "n * T div T \<le> (n * T div K + 1) * K div T"
    by (intro div_le_mono) simp
  then show ?thesis using assms(1) by simp
qed

lemma tic_length_pos:
  assumes "0 < (T::nat)" and "T \<le> K"
  shows "q * K div T < (q + 1) * K div T"
proof -
  have "q * K div T + 1 = (q * K + T) div T" using assms(1) by simp
  also have "\<dots> \<le> (q + 1) * K div T"
    using assms(2) by (intro div_le_mono) simp
  finally show ?thesis by simp
qed

lemma quotient_in_unit_interval:
  assumes "(a::nat) \<le> n" and "n \<le> b" and "a < b"
  shows "0 \<le> real (n - a) / real (b - a) \<and> real (n - a) / real (b - a) \<le> 1"
proof -
  have "n - a \<le> b - a" using assms by simp
  then have "real (n - a) \<le> real (b - a)" by (simp only: of_nat_le_iff)
  moreover have "0 < real (b - a)" using assms(3) by simp
  ultimately show ?thesis by (simp add: divide_le_eq_1)
qed

lemma GetTimeFrac_parts:
  assumes tr: "0 < sint tr" "sint tr \<le> 1000000000"
    and le: "FirstFrameStartTime s \<le> CurrentFrameStartTime s"
    and small: "(unat (CurrentFrameStartTime s) - unat (FirstFrameStartTime s)) * nat (sint tr)
           div 1000000000 < 2147483647"
  defines "n \<equiv> unat (CurrentFrameStartTime s) - unat (FirstFrameStartTime s)"
  defines "q \<equiv> n * nat (sint tr) div 1000000000"
  defines "a \<equiv> q * 1000000000 div nat (sint tr)"
  defines "b \<equiv> (q + 1) * 1000000000 div nat (sint tr)"
  shows "fst (I_GetTimeFrac tr ms s) = real (n - a) / real (b - a)"
    and "a \<le> n" and "n \<le> b" and "a < b"
proof -
  let ?T = "nat (sint tr)"
  let ?ns = "CurrentFrameStartTime s - FirstFrameStartTime s"
  let ?tic = "NSToTic tr ?ns"
  have T: "0 < ?T" "?T \<le> 1000000000" using tr by simp_all
  have tr0: "0 \<le> sint tr" using tr by simp
  have n: "unat ?ns = n" unfolding n_def using le by (rule unat_sub)
  have q_small: "q < 2147483647" using small by (simp add: q_def n_def)
  then have "unat ?ns * ?T div 1000000000 < 2147483648" using n by (simp add: q_def)
  with tr0 have "unat ?tic = unat ?ns * ?T div 1000000000" by (rule unat_NSToTic_small)
  then have tic: "unat ?tic = q" using n by (simp add: q_def)
  then have "unat ?tic < 2147483647" using q_small by simp
  then have tic1: "unat (?tic + 1) = q + 1" using tic by (simp add: unat_succ_i32)
  have "unat ?tic < 2147483648" using tic q_small by simp
  with tr0 have "unat (TicToNS tr ?tic) = unat ?tic * 1000000000 div ?T" by (rule unat_TicToNS)
  then have A: "unat (TicToNS tr ?tic) = a" using tic by (simp add: a_def)
  have "unat (?tic + 1) < 2147483648" using tic1 q_small by simp
  with tr0 have "unat (TicToNS tr (?tic + 1)) = unat (?tic + 1) * 1000000000 div ?T"
    by (rule unat_TicToNS)
  then have B: "unat (TicToNS tr (?tic + 1)) = b" using tic1 by (simp add: b_def)
  show an: "a \<le> n" unfolding a_def q_def using T(1) by (rule tic_start_le)
  show "n \<le> b" unfolding b_def q_def using T(1) by (rule tic_next_ge) simp
  show ab: "a < b" unfolding a_def b_def using T by (rule tic_length_pos)
  have "TicToNS tr ?tic \<le> ?ns" using an A n by (simp add: word_le_nat_alt)
  then have "unat (?ns - TicToNS tr ?tic) = unat ?ns - unat (TicToNS tr ?tic)" by (rule unat_sub)
  then have num: "unat (?ns - TicToNS tr ?tic) = n - a" using A n by simp
  have "TicToNS tr ?tic \<le> TicToNS tr (?tic + 1)" using ab A B by (simp add: word_le_nat_alt)
  then have "unat (TicToNS tr (?tic + 1) - TicToNS tr ?tic)
      = unat (TicToNS tr (?tic + 1)) - unat (TicToNS tr ?tic)" by (rule unat_sub)
  then have den: "unat (TicToNS tr (?tic + 1) - TicToNS tr ?tic) = b - a" using A B by simp
  have w1: "CurrentFrameStartTime s - (FirstFrameStartTime s + TicToNS tr ?tic)
      = ?ns - TicToNS tr ?tic" by simp
  have w2: "FirstFrameStartTime s + TicToNS tr (?tic + 1) - (FirstFrameStartTime s + TicToNS tr ?tic)
      = TicToNS tr (?tic + 1) - TicToNS tr ?tic" by simp
  show "fst (I_GetTimeFrac tr ms s) = real (n - a) / real (b - a)"
    unfolding I_GetTimeFrac_def Let_def fst_conv w1 w2 num den ..
qed

text \<open>
  C2, as stated, fails: the frame taken 28,571,428 ns after the first one is in tic 0
  (\<open>28571428 * 35 < 10 ^ 9\<close>), tic 0 starts at offset 0 and tic 1 at offset
  \<open>10 ^ 9 div 35 = 28571428\<close>, so the quotient is \<open>28571428 / 28571428 = 1\<close>.
\<close>

theorem GetTimeFrac_one_counterexample:
  "FirstFrameStartTime \<lparr>FirstFrameStartTime = 1000, CurrentFrameStartTime = 28572428, FreezeTime = 0\<rparr>
     \<le> CurrentFrameStartTime \<lparr>FirstFrameStartTime = 1000, CurrentFrameStartTime = 28572428, FreezeTime = 0\<rparr>
   \<and> fst (I_GetTimeFrac 35 None
        \<lparr>FirstFrameStartTime = 1000, CurrentFrameStartTime = 28572428, FreezeTime = 0\<rparr>) = 1
   \<and> \<not> fst (I_GetTimeFrac 35 None
        \<lparr>FirstFrameStartTime = 1000, CurrentFrameStartTime = 28572428, FreezeTime = 0\<rparr>) < 1"
  by (simp add: I_GetTimeFrac_def NSToTic_def TicToNS_def)

text \<open>
  C2, amended. For every state with \<open>FirstFrameStartTime \<le> CurrentFrameStartTime\<close>, a
  \<open>TICRATE\<close> between 1 and \<open>10 ^ 9\<close> and a tic that fits an \<^verbatim>\<open>int\<close>, the quotient
  \<^verbatim>\<open>I_GetTimeFrac\<close> (FractionalTic) returns lies in the closed interval from 0 to 1.
  In every state a supplied slot receives the tic plus 1, the value of \<^verbatim>\<open>I_GetTime\<close> on
  that state, and no slot stays no slot.
\<close>

theorem GetTimeFrac_closed_interval:
  "(0 < sint tr \<and> sint tr \<le> 1000000000 \<and>
    FirstFrameStartTime s \<le> CurrentFrameStartTime s \<and>
    (unat (CurrentFrameStartTime s) - unat (FirstFrameStartTime s)) * nat (sint tr)
       div 1000000000 < 2147483647 \<longrightarrow>
    0 \<le> fst (I_GetTimeFrac tr ms s) \<and> fst (I_GetTimeFrac tr ms s) \<le> 1)
   \<and> snd (I_GetTimeFrac tr (Some v) s) = Some (I_GetTime tr s)
   \<and> snd (I_GetTimeFrac tr None s) = None"
proof -
  have range: "0 \<le> fst (I_GetTimeFrac tr ms s) \<and> fst (I_GetTimeFrac tr ms s) \<le> 1"
    if tr: "0 < sint tr" "sint tr \<le> 1000000000"
      and le: "FirstFrameStartTime s \<le> CurrentFrameStartTime s"
      and small: "(unat (CurrentFrameStartTime s) - unat (FirstFrameStartTime s)) * nat (sint tr)
           div 1000000000 < 2147483647"
  proof -
    note p = GetTimeFrac_parts [OF tr le small]
    show ?thesis
      unfolding p(1) using p(2,3,4) by (rule quotient_in_unit_interval)
  qed
  have slot: "snd (I_GetTimeFrac tr (Some v) s) = Some (I_GetTime tr s)"
    by (simp add: I_GetTimeFrac_def I_GetTime_def Let_def)
  have none: "snd (I_GetTimeFrac tr None s) = None"
    by (simp add: I_GetTimeFrac_def Let_def)
  from range slot none show ?thesis by blast
qed

theorem GetTimeFrac_closed_interval_witness:
  "0 \<le> fst (I_GetTimeFrac 35 (Some 0)
        \<lparr>FirstFrameStartTime = 1000, CurrentFrameStartTime = 100001000, FreezeTime = 0\<rparr>)
   \<and> fst (I_GetTimeFrac 35 (Some 0)
        \<lparr>FirstFrameStartTime = 1000, CurrentFrameStartTime = 100001000, FreezeTime = 0\<rparr>) \<le> 1
   \<and> snd (I_GetTimeFrac 35 (Some 0)
        \<lparr>FirstFrameStartTime = 1000, CurrentFrameStartTime = 100001000, FreezeTime = 0\<rparr>)
      = Some (I_GetTime 35
        \<lparr>FirstFrameStartTime = 1000, CurrentFrameStartTime = 100001000, FreezeTime = 0\<rparr>)"
  using GetTimeFrac_closed_interval [of 35
      "\<lparr>FirstFrameStartTime = 1000, CurrentFrameStartTime = 100001000, FreezeTime = 0\<rparr>" "Some 0" 0]
  by simp

section \<open>Freezing and unfreezing\<close>

text \<open>
  C3, as stated, fails for a run that freezes before its first frame. From the state at
  process start (nothing set, elapsed time 0), a freeze at clock time \<open>10 ^ 12\<close> and an
  unfreeze at \<open>1.005 * 10 ^ 12\<close>, whose frame time reads 100 ns later, leave
  \<open>FirstFrameStartTime = 5 * 10 ^ 9\<close> (the time spent frozen, added to the 0 that stands
  for "not set") and an elapsed time of 1,000,000,000,100 ns: it grew by more than the
  clock advanced from the freeze to the end of the run. If \<^verbatim>\<open>I_NSTime\<close> is called while
  frozen (at \<open>1.001 * 10 ^ 12\<close>), it sets \<open>FirstFrameStartTime\<close> to that reading, the
  unfreeze moves it past the frame time, and the elapsed time wraps to
  \<open>2 ^ 64 - 999999900\<close>.
\<close>

theorem unfreeze_before_first_frame_counterexample:
  "FreezeTime startup = 0
   \<and> (1000000000000 :: u64) \<le> 1005000000000
   \<and> FreezeTime (I_FreezeTime True 1000000000000 0 startup) \<noteq> 0
   \<and> fst (I_NSTime 0 startup) = 0
   \<and> fst (I_NSTime 0 (I_FreezeTime False 1005000000000 1005000000100
          (I_FreezeTime True 1000000000000 0 startup))) = 1000000000100
   \<and> (1005000000100 - 1000000000000 :: u64)
       < fst (I_NSTime 0 (I_FreezeTime False 1005000000000 1005000000100
          (I_FreezeTime True 1000000000000 0 startup))) - fst (I_NSTime 0 startup)
   \<and> I_NSTime 1001000000000 (I_FreezeTime True 1000000000000 0 startup)
       = (0, \<lparr>FirstFrameStartTime = 1001000000000, CurrentFrameStartTime = 0,
              FreezeTime = 1000000000000\<rparr>)
   \<and> fst (I_NSTime 0 (I_FreezeTime False 1005000000000 1005000000100
          \<lparr>FirstFrameStartTime = 1001000000000, CurrentFrameStartTime = 0,
             FreezeTime = 1000000000000\<rparr>)) = 18446744072709551716"
  by (simp add: I_NSTime_def I_FreezeTime_def I_SetFrameTime_def startup_def Let_def)

text \<open>
  C3, amended. \<^verbatim>\<open>I_FreezeTime(false)\<close> in a frozen state adds the clock reading minus
  \<open>FreezeTime\<close> to \<open>FirstFrameStartTime\<close>, sets \<open>FreezeTime\<close> to 0 and then does what
  \<^verbatim>\<open>I_SetFrameTime\<close> does. Consequently, in a run whose first frame has been taken
  (\<open>FirstFrameStartTime\<close> is set, at or before \<open>t1\<close>), that freezes at clock time
  \<open>t1\<close> and unfreezes at \<open>t2 \<ge> t1\<close>,
  with \<open>t3\<close> the reading of the frame time taken inside the unfreeze: the elapsed
  time right after unfreezing is the elapsed time right before freezing plus
  \<open>t1 - CurrentFrameStartTime\<close> (the time from the last frame to the freeze) plus
  \<open>t3 - t2\<close> (the time between the two clock reads of the unfreeze); the time spent
  frozen, \<open>t2 - t1\<close>, is not in it. If the freeze comes at the reading of the last frame
  and the two reads of the unfreeze agree, the two elapsed times are equal.
\<close>

theorem unfreeze_excises_frozen_interval:
  "(FreezeTime s \<noteq> 0 \<longrightarrow>
      I_FreezeTime False now now' s =
        I_SetFrameTime now'
          (s\<lparr>FirstFrameStartTime := FirstFrameStartTime s + (now - FreezeTime s),
             FreezeTime := 0\<rparr>))
   \<and> (FreezeTime s = 0 \<and> FirstFrameStartTime s \<noteq> 0 \<and> FirstFrameStartTime s \<le> t1 \<and> t1 \<le> t2 \<longrightarrow>
        FreezeTime (I_FreezeTime True t1 x s) \<noteq> 0
      \<and> fst (I_NSTime y (I_FreezeTime False t2 t3 (I_FreezeTime True t1 x s)))
          = fst (I_NSTime z s) + (t1 - CurrentFrameStartTime s) + (t3 - t2)
      \<and> (t1 = CurrentFrameStartTime s \<and> t3 = t2 \<longrightarrow>
          fst (I_NSTime y (I_FreezeTime False t2 t3 (I_FreezeTime True t1 x s)))
          = fst (I_NSTime z s)))"
proof -
  have step: "I_FreezeTime False now now' s =
        I_SetFrameTime now'
          (s\<lparr>FirstFrameStartTime := FirstFrameStartTime s + (now - FreezeTime s),
             FreezeTime := 0\<rparr>)"
    by (simp add: I_FreezeTime_def Let_def)
  have run: "FreezeTime (I_FreezeTime True t1 x s) \<noteq> 0
      \<and> fst (I_NSTime y (I_FreezeTime False t2 t3 (I_FreezeTime True t1 x s)))
          = fst (I_NSTime z s) + (t1 - CurrentFrameStartTime s) + (t3 - t2)"
    if unfrozen: "FreezeTime s = 0" and set: "FirstFrameStartTime s \<noteq> 0"
      and le: "FirstFrameStartTime s \<le> t1" "t1 \<le> t2"
  proof -
    let ?s1 = "I_FreezeTime True t1 x s"
    let ?s2 = "I_FreezeTime False t2 t3 ?s1"
    have "t1 \<noteq> 0" using set le(1) by auto
    then have frozen: "FreezeTime ?s1 \<noteq> 0" by (simp add: I_FreezeTime_def)
    have s1: "FreezeTime ?s1 = t1" "FirstFrameStartTime ?s1 = FirstFrameStartTime s"
      by (simp_all add: I_FreezeTime_def)
    have nz: "FirstFrameStartTime s + (t2 - t1) \<noteq> 0"
      using set le by (rule first_frame_shift_nonzero)
    have f2: "FirstFrameStartTime ?s2 = FirstFrameStartTime s + (t2 - t1)"
      using nz by (simp add: I_FreezeTime_False_fields(3) s1)
    have "fst (I_NSTime y ?s2) = CurrentFrameStartTime ?s2 - FirstFrameStartTime ?s2"
      by (simp add: I_NSTime_def I_FreezeTime_False_fields(1))
    also have "\<dots> = t3 - (FirstFrameStartTime s + (t2 - t1))"
      by (simp only: f2 I_FreezeTime_False_fields(2))
    also have "\<dots> = (CurrentFrameStartTime s - FirstFrameStartTime s)
        + (t1 - CurrentFrameStartTime s) + (t3 - t2)"
      by simp
    also have "CurrentFrameStartTime s - FirstFrameStartTime s = fst (I_NSTime z s)"
      using unfrozen by (simp add: I_NSTime_def)
    finally show ?thesis using frozen by simp
  qed
  from step run show ?thesis by auto
qed

theorem unfreeze_excises_frozen_interval_witness:
  "I_FreezeTime False 900 905
      \<lparr>FirstFrameStartTime = 100, CurrentFrameStartTime = 350, FreezeTime = 400\<rparr>
     = \<lparr>FirstFrameStartTime = 600, CurrentFrameStartTime = 905, FreezeTime = 0\<rparr>
   \<and> fst (I_NSTime 0 \<lparr>FirstFrameStartTime = 100, CurrentFrameStartTime = 350, FreezeTime = 0\<rparr>) = 250
   \<and> fst (I_NSTime 0 (I_FreezeTime False 900 905 (I_FreezeTime True 400 0
        \<lparr>FirstFrameStartTime = 100, CurrentFrameStartTime = 350, FreezeTime = 0\<rparr>))) = 305
   \<and> fst (I_NSTime 0 (I_FreezeTime False 900 900 (I_FreezeTime True 350 0
        \<lparr>FirstFrameStartTime = 100, CurrentFrameStartTime = 350, FreezeTime = 0\<rparr>))) = 250"
  using unfreeze_excises_frozen_interval
      [of "\<lparr>FirstFrameStartTime = 100, CurrentFrameStartTime = 350, FreezeTime = 400\<rparr>" 900 905]
    unfreeze_excises_frozen_interval
      [of "\<lparr>FirstFrameStartTime = 100, CurrentFrameStartTime = 350, FreezeTime = 0\<rparr>"
          _ _ 400 900 0 0 905 0]
    unfreeze_excises_frozen_interval
      [of "\<lparr>FirstFrameStartTime = 100, CurrentFrameStartTime = 350, FreezeTime = 0\<rparr>"
          _ _ 350 900 0 0 900 0]
  by (simp add: I_SetFrameTime_def I_NSTime_def)

text \<open>
  C10. \<^verbatim>\<open>I_FreezeTime(false)\<close> in a state that is not frozen (\<open>FreezeTime = 0\<close>) adds
  the whole clock reading to \<open>FirstFrameStartTime\<close>: the state does not stay as it was.
  (The sum must not be 0 modulo \<open>2 ^ 64\<close>, the value that stands for "not set", which
  the frame time taken next would overwrite; a clock reading that is not 0 and a sum that
  does not wrap make it so.) With a reading that is not 0 the new state differs from the
  old one, and where the first frame had been taken and the sum does not wrap the new
  \<open>FirstFrameStartTime\<close> lies after the clock reading itself.
\<close>

theorem unfreeze_when_not_frozen:
  assumes "FreezeTime s = 0" and "FirstFrameStartTime s + now \<noteq> 0"
  shows "FirstFrameStartTime (I_FreezeTime False now now' s) = FirstFrameStartTime s + now
    \<and> (now \<noteq> 0 \<longrightarrow> I_FreezeTime False now now' s \<noteq> s)
    \<and> (FirstFrameStartTime s \<noteq> 0 \<and> unat (FirstFrameStartTime s) + unat now < 2 ^ 64 \<longrightarrow>
           now < FirstFrameStartTime (I_FreezeTime False now now' s))"
proof -
  have f: "FirstFrameStartTime (I_FreezeTime False now now' s) = FirstFrameStartTime s + now"
    using assms by (simp add: I_FreezeTime_False_fields(3))
  have changed: "I_FreezeTime False now now' s \<noteq> s" if "now \<noteq> 0"
  proof -
    from that have "FirstFrameStartTime (I_FreezeTime False now now' s) \<noteq> FirstFrameStartTime s"
      unfolding f by simp
    then show ?thesis by auto
  qed
  have future: "now < FirstFrameStartTime (I_FreezeTime False now now' s)"
    if a: "FirstFrameStartTime s \<noteq> 0 \<and> unat (FirstFrameStartTime s) + unat now < 2 ^ 64"
  proof -
    from a have "unat (FirstFrameStartTime s) + unat now < 2 ^ LENGTH(64)" by simp
    then have "unat (FirstFrameStartTime s + now) = unat (FirstFrameStartTime s) + unat now"
      by (simp only: unat_add_lem [symmetric])
    moreover have "0 < unat (FirstFrameStartTime s)" using a by (simp add: unat_gt_0)
    ultimately have "unat now < unat (FirstFrameStartTime s + now)" by linarith
    then show ?thesis unfolding f by (simp add: word_less_nat_alt)
  qed
  from f changed future show ?thesis by blast
qed

theorem unfreeze_when_not_frozen_witness:
  "FreezeTime \<lparr>FirstFrameStartTime = 100, CurrentFrameStartTime = 350, FreezeTime = 0\<rparr> = 0
   \<and> FirstFrameStartTime (I_FreezeTime False 900 905
        \<lparr>FirstFrameStartTime = 100, CurrentFrameStartTime = 350, FreezeTime = 0\<rparr>) = 1000
   \<and> I_FreezeTime False 900 905
        \<lparr>FirstFrameStartTime = 100, CurrentFrameStartTime = 350, FreezeTime = 0\<rparr>
      \<noteq> \<lparr>FirstFrameStartTime = 100, CurrentFrameStartTime = 350, FreezeTime = 0\<rparr>
   \<and> (900 :: u64) < FirstFrameStartTime (I_FreezeTime False 900 905
        \<lparr>FirstFrameStartTime = 100, CurrentFrameStartTime = 350, FreezeTime = 0\<rparr>)"
  using unfreeze_when_not_frozen
    [of "\<lparr>FirstFrameStartTime = 100, CurrentFrameStartTime = 350, FreezeTime = 0\<rparr>" 900 905]
  by simp

section \<open>Waiting for a tic\<close>

lemma I_WaitForTic_done:
  assumes "sint prevtic < sint (I_GetTime tr s)"
  shows "I_WaitForTic tr clk prevtic s sleeps = Some (I_GetTime tr s, s, sleeps)"
  using assms by (subst I_WaitForTic.simps) (simp add: Let_def)

lemma I_WaitForTic_step:
  assumes "sint (I_GetTime tr s) \<le> sint prevtic"
  shows "\<exists>sleeps'. I_WaitForTic tr clk prevtic s sleeps =
     I_WaitForTic tr (\<lambda>i. clk (Suc i)) prevtic (I_SetFrameTime (clk 0) s) sleeps'"
  using assms by (subst I_WaitForTic.simps) (auto simp: Let_def)

lemma I_WaitForTic_returns:
  assumes "sint prevtic < sint (I_GetTime tr (frames clk k s))"
    and "\<forall>j<k. sint (I_GetTime tr (frames clk j s)) \<le> sint prevtic"
  shows "\<exists>sleeps'. I_WaitForTic tr clk prevtic s sleeps =
     Some (I_GetTime tr (frames clk k s), frames clk k s, sleeps')"
  using assms
proof (induction k arbitrary: clk s sleeps)
  case 0
  then show ?case by (simp add: I_WaitForTic_done)
next
  case (Suc k)
  let ?clk = "\<lambda>i. clk (Suc i)"
  let ?s = "I_SetFrameTime (clk 0) s"
  from Suc.prems(2) have "sint (I_GetTime tr (frames clk 0 s)) \<le> sint prevtic" by blast
  then have "sint (I_GetTime tr s) \<le> sint prevtic" by simp
  then obtain sl where step: "I_WaitForTic tr clk prevtic s sleeps =
      I_WaitForTic tr ?clk prevtic ?s sl"
    using I_WaitForTic_step by blast
  have later: "sint prevtic < sint (I_GetTime tr (frames ?clk k ?s))"
    using Suc.prems(1) by simp
  have before: "\<forall>j<k. sint (I_GetTime tr (frames ?clk j ?s)) \<le> sint prevtic"
  proof (intro allI impI)
    fix j assume "j < k"
    then have "Suc j < Suc k" by simp
    with Suc.prems(2) have "sint (I_GetTime tr (frames clk (Suc j) s)) \<le> sint prevtic"
      by blast
    then show "sint (I_GetTime tr (frames ?clk j ?s)) \<le> sint prevtic" by simp
  qed
  from Suc.IH [OF later before, of sl] step show ?case by simp
qed

lemma I_WaitForTic_frozen_never_returns:
  assumes "FreezeTime s \<noteq> 0" and "sint (I_GetTime tr s) \<le> sint prevtic"
  shows "I_WaitForTic tr clk prevtic s sleeps = None"
proof (rule ccontr)
  assume "I_WaitForTic tr clk prevtic s sleeps \<noteq> None"
  then obtain r where "I_WaitForTic tr clk prevtic s sleeps = Some r" by blast
  from I_WaitForTic_result [OF this] obtain k where
    "fst r = I_GetTime tr (frames clk k s)" "sint prevtic < sint (fst r)" by blast
  with assms show False by (simp add: frames_frozen)
qed

text \<open>
  C6. If \<^verbatim>\<open>I_WaitForTic(prevtic)\<close> is called in a state whose \<^verbatim>\<open>I_GetTime\<close> already
  exceeds \<open>prevtic\<close>, it returns that tic at once: the sleep log is empty and the state
  is the one it was called in (no frame time was taken). In general, if the clock gets
  far enough for some frame to have a tic greater than \<open>prevtic\<close>, the call returns, and
  what it returns is the tic of the first frame whose tic is greater than \<open>prevtic\<close>:
  every frame seen before it had a tic of at most \<open>prevtic\<close>.
\<close>

theorem I_WaitForTic_first_greater:
  "(sint prevtic < sint (I_GetTime tr s) \<longrightarrow>
      I_WaitForTic tr clk prevtic s [] = Some (I_GetTime tr s, s, []))
   \<and> ((\<exists>k. sint prevtic < sint (I_GetTime tr (frames clk k s))) \<longrightarrow>
      (\<exists>k sleeps. I_WaitForTic tr clk prevtic s [] =
            Some (I_GetTime tr (frames clk k s), frames clk k s, sleeps)
         \<and> sint prevtic < sint (I_GetTime tr (frames clk k s))
         \<and> (\<forall>j<k. sint (I_GetTime tr (frames clk j s)) \<le> sint prevtic)))"
proof (intro conjI impI)
  assume "sint prevtic < sint (I_GetTime tr s)"
  then show "I_WaitForTic tr clk prevtic s [] = Some (I_GetTime tr s, s, [])"
    by (rule I_WaitForTic_done)
next
  let ?P = "\<lambda>k. sint prevtic < sint (I_GetTime tr (frames clk k s))"
  assume "\<exists>k. ?P k"
  then obtain k where k: "?P k" and least: "\<forall>j<k. \<not> ?P j"
    unfolding exists_least_iff [of ?P] by blast
  from least have before: "\<forall>j<k. sint (I_GetTime tr (frames clk j s)) \<le> sint prevtic"
    by (simp add: not_less)
  from I_WaitForTic_returns [OF k before, of "[]"] obtain sl where
    "I_WaitForTic tr clk prevtic s [] = Some (I_GetTime tr (frames clk k s), frames clk k s, sl)"
    by blast
  with k before show "\<exists>k sleeps. I_WaitForTic tr clk prevtic s [] =
            Some (I_GetTime tr (frames clk k s), frames clk k s, sleeps)
         \<and> sint prevtic < sint (I_GetTime tr (frames clk k s))
         \<and> (\<forall>j<k. sint (I_GetTime tr (frames clk j s)) \<le> sint prevtic)"
    by blast
qed

theorem I_WaitForTic_first_greater_witness:
  "I_WaitForTic 35 (\<lambda>i. 30001000) 0
      \<lparr>FirstFrameStartTime = 1000, CurrentFrameStartTime = 1000, FreezeTime = 0\<rparr> []
     = Some (1, \<lparr>FirstFrameStartTime = 1000, CurrentFrameStartTime = 1000, FreezeTime = 0\<rparr>, [])
   \<and> (\<exists>sleeps. I_WaitForTic 35 (\<lambda>i. 30001000) 1
      \<lparr>FirstFrameStartTime = 1000, CurrentFrameStartTime = 1000, FreezeTime = 0\<rparr> []
     = Some (2, \<lparr>FirstFrameStartTime = 1000, CurrentFrameStartTime = 30001000, FreezeTime = 0\<rparr>,
         sleeps))"
proof -
  let ?s = "\<lparr>FirstFrameStartTime = 1000, CurrentFrameStartTime = 1000, FreezeTime = 0\<rparr>"
  let ?s' = "\<lparr>FirstFrameStartTime = 1000, CurrentFrameStartTime = 30001000, FreezeTime = 0\<rparr>"
  let ?clk = "\<lambda>i::nat. 30001000 :: u64"
  have t0: "I_GetTime 35 ?s = 1" by (simp add: I_GetTime_def NSToTic_def)
  have f1: "frames ?clk (Suc 0) ?s = ?s'" by (simp add: I_SetFrameTime_def)
  have t1: "I_GetTime 35 ?s' = 2" by (simp add: I_GetTime_def NSToTic_def)
  have now: "sint (0::i32) < sint (I_GetTime 35 ?s)" by (simp add: t0)
  have first: "I_WaitForTic 35 ?clk 0 ?s [] = Some (1, ?s, [])"
    using I_WaitForTic_first_greater [of 0 35 ?s ?clk] now by (simp add: t0)
  have "sint (1::i32) < sint (I_GetTime 35 (frames ?clk (Suc 0) ?s))" unfolding f1 t1 by simp
  then have "\<exists>k. sint (1::i32) < sint (I_GetTime 35 (frames ?clk k ?s))" by blast
  with I_WaitForTic_first_greater [of 1 35 ?s ?clk] obtain k sl where
    r: "I_WaitForTic 35 ?clk 1 ?s [] = Some (I_GetTime 35 (frames ?clk k ?s), frames ?clk k ?s, sl)"
    and gt: "sint (1::i32) < sint (I_GetTime 35 (frames ?clk k ?s))"
    and le: "\<forall>j<k. sint (I_GetTime 35 (frames ?clk j ?s)) \<le> sint (1::i32)"
    by blast
  have "k \<noteq> 0"
  proof
    assume "k = 0"
    with gt have "sint (1::i32) < sint (I_GetTime 35 ?s)" by simp
    then show False unfolding t0 by simp
  qed
  moreover have "\<not> Suc 0 < k"
  proof
    assume "Suc 0 < k"
    with le have "sint (I_GetTime 35 (frames ?clk (Suc 0) ?s)) \<le> sint (1::i32)" by blast
    then show False unfolding f1 t1 by simp
  qed
  ultimately have k1: "k = Suc 0" by linarith
  have "I_WaitForTic 35 ?clk 1 ?s [] = Some (2, ?s', sl)"
    using r unfolding k1 f1 t1 .
  with first show ?thesis by blast
qed

section \<open>Tics along a run of frames\<close>

lemma snapshot_tics_sorted_from:
  assumes tr: "0 \<le> sint tr"
    and unfrozen: "FreezeTime s = 0"
    and order: "FirstFrameStartTime s \<le> CurrentFrameStartTime s"
    and unset: "FirstFrameStartTime s = 0 \<longrightarrow> CurrentFrameStartTime s = 0"
    and lo: "FirstFrameStartTime s \<noteq> 0 \<longrightarrow> lo \<le> FirstFrameStartTime s"
    and fits: "(unat (CurrentFrameStartTime s) - unat (FirstFrameStartTime s)) * nat (sint tr)
        div 1000000000 < 2147483647"
    and clock: "sorted (CurrentFrameStartTime s # cs)"
    and range: "\<forall>c\<in>set cs. lo \<le> c \<and> (unat c - unat lo) * nat (sint tr) div 1000000000 < 2147483647"
  shows "sorted (map sint (I_GetTime tr s # snapshot_tics tr cs s))"
  using unfrozen order unset lo fits clock range
proof (induction cs arbitrary: s)
  case Nil
  show ?case by simp
next
  case (Cons c cs)
  let ?T = "nat (sint tr)"
  let ?s = "I_SetFrameTime c s"
  let ?e = "unat (CurrentFrameStartTime s) - unat (FirstFrameStartTime s)"
  let ?e' = "unat (CurrentFrameStartTime ?s) - unat (FirstFrameStartTime ?s)"
  have c: "CurrentFrameStartTime s \<le> c" "lo \<le> c"
    "(unat c - unat lo) * ?T div 1000000000 < 2147483647"
    using Cons.prems(6,7) by simp_all
  note cur = I_SetFrameTime_unfrozen(1) [OF Cons.prems(1), of c]
  note unfrozen' = I_SetFrameTime_unfrozen(2) [OF Cons.prems(1), of c]
  note first = I_SetFrameTime_unfrozen(3) [OF Cons.prems(1), of c]
  have order': "FirstFrameStartTime ?s \<le> CurrentFrameStartTime ?s"
    using Cons.prems(2) c(1) by (auto simp: cur first)
  have unset': "FirstFrameStartTime ?s = 0 \<longrightarrow> CurrentFrameStartTime ?s = 0"
    by (simp add: cur first)
  have lo': "FirstFrameStartTime ?s \<noteq> 0 \<longrightarrow> lo \<le> FirstFrameStartTime ?s"
    using Cons.prems(4) c(2) by (simp add: first)
  have grow: "?e \<le> ?e'" and bound: "?e' \<le> unat c - unat lo"
  proof -
    show "?e \<le> ?e'"
    proof (cases "FirstFrameStartTime s = 0")
      case True
      with Cons.prems(3) show ?thesis by simp
    next
      case False
      then show ?thesis using c(1) by (simp add: cur first word_le_nat_alt diff_le_mono)
    qed
    show "?e' \<le> unat c - unat lo"
    proof (cases "FirstFrameStartTime s = 0")
      case True
      then show ?thesis by (simp add: cur first)
    next
      case False
      with Cons.prems(4) have "unat lo \<le> unat (FirstFrameStartTime s)"
        by (simp add: word_le_nat_alt)
      then show ?thesis using False by (simp add: cur first diff_le_mono2)
    qed
  qed
  have "?e' * ?T div 1000000000 \<le> (unat c - unat lo) * ?T div 1000000000"
    using bound by (intro div_le_mono mult_le_mono1)
  then have fits': "?e' * ?T div 1000000000 < 2147483647" using c(3) by linarith
  have tics: "?e * ?T div 1000000000 \<le> ?e' * ?T div 1000000000"
    using grow by (intro div_le_mono mult_le_mono1)
  have "sint (I_GetTime tr s) = int (?e * ?T div 1000000000) + 1"
    using tr Cons.prems(2,5) by (rule sint_I_GetTime)
  moreover have "sint (I_GetTime tr ?s) = int (?e' * ?T div 1000000000) + 1"
    using tr order' fits' by (rule sint_I_GetTime)
  ultimately have step: "sint (I_GetTime tr s) \<le> sint (I_GetTime tr ?s)"
    using tics by linarith
  have clock': "sorted (CurrentFrameStartTime ?s # cs)"
    using Cons.prems(6) by (simp add: cur)
  have range': "\<forall>c\<in>set cs. lo \<le> c \<and> (unat c - unat lo) * ?T div 1000000000 < 2147483647"
    using Cons.prems(7) by simp
  have "sorted (map sint (I_GetTime tr ?s # snapshot_tics tr cs ?s))"
    using unfrozen' order' unset' lo' fits' clock' range' by (rule Cons.IH)
  with step show ?case by (fastforce simp: Let_def)
qed

text \<open>
  C4, as stated, fails: the tic is cast to an \<^verbatim>\<open>int\<close>. With 35 tics per second a
  frame 61,356,675,657,142,858 ns (about 1.94 years) after the first one has
  \<open>ns * 35 div 10 ^ 9 = 2 ^ 31\<close>, which the cast turns into \<open>- (2 ^ 31)\<close>, so
  \<^verbatim>\<open>I_GetTime\<close> goes from 1 to \<open>-2147483647\<close> while the clock only advances.
\<close>

theorem snapshot_tics_wrap_counterexample:
  "sorted [1, 61356675657142859 :: u64]
   \<and> map sint (snapshot_tics 35 [1, 61356675657142859] startup) = [1, - 2147483647]
   \<and> \<not> sorted (map sint (snapshot_tics 35 [1, 61356675657142859] startup))"
  by (simp add: I_GetTime_def I_SetFrameTime_def startup_def NSToTic_def Let_def)

text \<open>
  C4, amended. For every sequence of \<^verbatim>\<open>I_SetFrameTime\<close> calls from the start of the
  process, driven by a clock whose readings never decrease, and as long as the tic of
  the time from the first reading to each reading stays below \<open>2 ^ 31 - 1\<close> (it fits the
  \<^verbatim>\<open>int\<close> that \<^verbatim>\<open>I_GetTime\<close> returns), the values \<^verbatim>\<open>I_GetTime\<close> returns after each
  call never decrease.
\<close>

theorem snapshot_tics_sorted:
  assumes "0 \<le> sint tr" and "sorted cs"
    and "\<forall>c\<in>set cs. (unat c - unat (hd cs)) * nat (sint tr) div 1000000000 < 2147483647"
  shows "sorted (map sint (snapshot_tics tr cs startup))"
proof -
  have "\<forall>c\<in>set cs. hd cs \<le> c"
    using assms(2) by (cases cs) auto
  with assms(3) have range:
    "\<forall>c\<in>set cs. hd cs \<le> c \<and> (unat c - unat (hd cs)) * nat (sint tr) div 1000000000 < 2147483647"
    by blast
  have clock: "sorted (CurrentFrameStartTime startup # cs)"
    using assms(2) by (simp add: startup_def)
  have "sorted (map sint (I_GetTime tr startup # snapshot_tics tr cs startup))"
    using assms(1) _ _ _ _ _ clock range
    by (rule snapshot_tics_sorted_from) (simp_all add: startup_def)
  then show ?thesis by simp
qed

theorem snapshot_tics_sorted_witness:
  "sorted [1000, 1000, 28572429, 57143858, 200001000 :: u64]
   \<and> map sint (snapshot_tics 35 [1000, 1000, 28572429, 57143858, 200001000] startup) = [1, 1, 2, 3, 8]
   \<and> sorted (map sint (snapshot_tics 35 [1000, 1000, 28572429, 57143858, 200001000] startup))"
proof -
  have s: "sorted [1000, 1000, 28572429, 57143858, 200001000 :: u64]" by simp
  have "sorted (map sint (snapshot_tics 35 [1000, 1000, 28572429, 57143858, 200001000] startup))"
    using snapshot_tics_sorted [of 35 "[1000, 1000, 28572429, 57143858, 200001000]"] s
    by simp
  moreover have "map sint (snapshot_tics 35 [1000, 1000, 28572429, 57143858, 200001000] startup)
      = [1, 1, 2, 3, 8]"
    by (simp add: I_GetTime_def I_SetFrameTime_def startup_def NSToTic_def Let_def)
  ultimately show ?thesis using s by blast
qed

section \<open>The order of the first and the current frame time\<close>

lemma unat_first_frame_shift:
  assumes "(f::u64) \<le> t1" and "t1 \<le> t2"
  shows "unat (f + (t2 - t1)) = unat f + (unat t2 - unat t1)"
proof -
  have d: "unat (t2 - t1) = unat t2 - unat t1" using assms(2) by (rule unat_sub)
  have "unat f \<le> unat t1" "unat t1 \<le> unat t2"
    using assms by (simp_all add: word_le_nat_alt)
  moreover have "unat t2 < 2 ^ LENGTH(64)" by (rule unsigned_less)
  ultimately have "unat f + unat (t2 - t1) < 2 ^ LENGTH(64)" using d by linarith
  then have "unat (f + (t2 - t1)) = unat f + unat (t2 - t1)"
    by (simp only: unat_add_lem [symmetric])
  then show ?thesis using d by simp
qed

lemma frames_keep_order:
  assumes "FirstFrameStartTime s \<noteq> 0" and "FirstFrameStartTime s \<le> CurrentFrameStartTime s"
    and "\<forall>i. clk i \<le> clk (Suc i)" and "CurrentFrameStartTime s \<le> clk 0"
  shows "FirstFrameStartTime (frames clk k s) = FirstFrameStartTime s
    \<and> FreezeTime (frames clk k s) = FreezeTime s
    \<and> CurrentFrameStartTime s \<le> CurrentFrameStartTime (frames clk k s)
    \<and> (FreezeTime s \<noteq> 0 \<longrightarrow> frames clk k s = s)"
  using assms
proof (induction k arbitrary: clk s)
  case 0
  show ?case by simp
next
  case (Suc k)
  let ?s = "I_SetFrameTime (clk 0) s"
  let ?clk = "\<lambda>i. clk (Suc i)"
  show ?case
  proof (cases "FreezeTime s = 0")
    case True
    note f = I_SetFrameTime_unfrozen [OF True, of "clk 0"]
    have first: "FirstFrameStartTime ?s = FirstFrameStartTime s"
      using Suc.prems(1) by (simp add: f(3))
    have 1: "FirstFrameStartTime ?s \<noteq> 0" using Suc.prems(1) first by simp
    have 2: "FirstFrameStartTime ?s \<le> CurrentFrameStartTime ?s"
      using Suc.prems(2,4) unfolding first f(1) by (rule order_trans)
    have 3: "\<forall>i. ?clk i \<le> ?clk (Suc i)" using Suc.prems(3) by simp
    have 4: "CurrentFrameStartTime ?s \<le> ?clk 0" using Suc.prems(3) unfolding f(1) by simp
    from Suc.IH [OF 1 2 3 4] have
      "FirstFrameStartTime (frames ?clk k ?s) = FirstFrameStartTime ?s"
      "FreezeTime (frames ?clk k ?s) = FreezeTime ?s"
      "CurrentFrameStartTime ?s \<le> CurrentFrameStartTime (frames ?clk k ?s)"
      by simp_all
    then show ?thesis using True Suc.prems(4) by (simp add: first f(1) f(2))
  next
    case False
    then have "frames clk (Suc k) s = s" by (rule frames_frozen)
    then show ?thesis by (simp del: frames.simps)
  qed
qed

text \<open>
  C8, as stated, fails: \<^verbatim>\<open>I_FreezeTime(false)\<close> in a state that is not frozen adds the
  whole clock reading to \<open>FirstFrameStartTime\<close>, which then lies after the frame time
  taken next. Here both times are set and in order, the clock (30, 30) does not go back,
  and after the call \<open>FirstFrameStartTime = 40\<close> and \<open>CurrentFrameStartTime = 30\<close>.
\<close>

theorem frame_order_counterexample:
  "FirstFrameStartTime \<lparr>FirstFrameStartTime = 10, CurrentFrameStartTime = 20, FreezeTime = 0\<rparr> \<noteq> 0
   \<and> CurrentFrameStartTime \<lparr>FirstFrameStartTime = 10, CurrentFrameStartTime = 20, FreezeTime = 0\<rparr> \<noteq> 0
   \<and> FirstFrameStartTime \<lparr>FirstFrameStartTime = 10, CurrentFrameStartTime = 20, FreezeTime = 0\<rparr>
       \<le> CurrentFrameStartTime \<lparr>FirstFrameStartTime = 10, CurrentFrameStartTime = 20, FreezeTime = 0\<rparr>
   \<and> CurrentFrameStartTime \<lparr>FirstFrameStartTime = 10, CurrentFrameStartTime = 20, FreezeTime = 0\<rparr>
       \<le> (30 :: u64)
   \<and> exec 35 (\<lambda>i. 30) (Op_FreezeTime False)
        \<lparr>FirstFrameStartTime = 10, CurrentFrameStartTime = 20, FreezeTime = 0\<rparr>
       = Some \<lparr>FirstFrameStartTime = 40, CurrentFrameStartTime = 30, FreezeTime = 0\<rparr>
   \<and> \<not> FirstFrameStartTime \<lparr>FirstFrameStartTime = 40, CurrentFrameStartTime = 30, FreezeTime = 0\<rparr>
       \<le> CurrentFrameStartTime \<lparr>FirstFrameStartTime = 40, CurrentFrameStartTime = 30, FreezeTime = 0\<rparr>"
  by (simp add: I_FreezeTime_def I_SetFrameTime_def Let_def)

text \<open>
  C8, amended. Once \<open>FirstFrameStartTime\<close> and \<open>CurrentFrameStartTime\<close> are both set
  and in order, every operation of the timer other than \<^verbatim>\<open>I_FreezeTime(false)\<close> in a
  state that is not frozen keeps \<open>FirstFrameStartTime \<le> CurrentFrameStartTime\<close> (and
  both set), when the clock does not go back: its readings \<open>clk 0\<close>, \<open>clk 1\<close>, ...
  never decrease, they are not before the times the state holds, and the state was frozen
  (if it is) not before its current frame. The frame-before-freeze order is kept as well,
  so the statement applies again to the state the operation leaves.
\<close>

theorem frame_order_preserved:
  assumes "FirstFrameStartTime s \<noteq> 0" and "CurrentFrameStartTime s \<noteq> 0"
    and "FirstFrameStartTime s \<le> CurrentFrameStartTime s"
    and "FreezeTime s \<noteq> 0 \<longrightarrow> CurrentFrameStartTime s \<le> FreezeTime s"
    and "\<forall>i. clk i \<le> clk (Suc i)"
    and "CurrentFrameStartTime s \<le> clk 0" and "FreezeTime s \<le> clk 0"
    and "opn = Op_FreezeTime False \<longrightarrow> FreezeTime s \<noteq> 0"
    and "exec tr clk opn s = Some s'"
  shows "FirstFrameStartTime s' \<le> CurrentFrameStartTime s'
    \<and> FirstFrameStartTime s' \<noteq> 0 \<and> CurrentFrameStartTime s' \<noteq> 0
    \<and> (FreezeTime s' \<noteq> 0 \<longrightarrow> CurrentFrameStartTime s' \<le> FreezeTime s')"
proof -
  let ?goal = "\<lambda>s'. FirstFrameStartTime s' \<le> CurrentFrameStartTime s'
    \<and> FirstFrameStartTime s' \<noteq> 0 \<and> CurrentFrameStartTime s' \<noteq> 0
    \<and> (FreezeTime s' \<noteq> 0 \<longrightarrow> CurrentFrameStartTime s' \<le> FreezeTime s')"
  have same: "?goal s" using assms(1-4) by simp
  have run: "?goal (frames clk k s)" for k
  proof -
    note k = frames_keep_order [OF assms(1,3,5,6), of k]
    show ?thesis
    proof (cases "FreezeTime s = 0")
      case True
      have "FirstFrameStartTime s \<le> CurrentFrameStartTime (frames clk k s)"
        using assms(3) k by (blast intro: order_trans)
      moreover have "CurrentFrameStartTime (frames clk k s) \<noteq> 0"
        using assms(2) k by auto
      ultimately show ?thesis using assms(1) True k by simp
    next
      case False
      with k have "frames clk k s = s" by simp
      with same show ?thesis by simp
    qed
  qed
  have snap: "?goal (I_SetFrameTime (clk 0) s)"
    using run [of "Suc 0"] by simp
  show ?thesis
  proof (cases opn)
    case Op_SetFrameTime
    with assms(9) snap show ?thesis by auto
  next
    case (Op_WaitVBL n)
    with assms(9) snap show ?thesis by (auto simp: I_WaitVBL_def)
  next
    case (Op_WaitForTic p)
    with assms(9) obtain t sl where "I_WaitForTic tr clk p s [] = Some (t, s', sl)"
      by (auto split: option.splits)
    from I_WaitForTic_result [OF this] obtain k where "s' = frames clk k s" by auto
    with run [of k] show ?thesis by simp
  next
    case Op_NSTime
    with assms(9) assms(1) have "s' = s" by (auto simp: I_NSTime_def)
    with same show ?thesis by simp
  next
    case Op_FPSTimeNS
    with assms(9) same show ?thesis by auto
  next
    case Op_MSTime
    with assms(9) assms(1) have "s' = s" by (auto simp: I_MSTime_def I_NSTime_def)
    with same show ?thesis by simp
  next
    case Op_FPSTime
    with assms(9) same show ?thesis by auto
  next
    case Op_GetTime
    with assms(9) same show ?thesis by auto
  next
    case (Op_GetTimeFrac ms)
    with assms(9) same show ?thesis by auto
  next
    case (Op_FreezeTime frozen)
    show ?thesis
    proof (cases frozen)
      case True
      with Op_FreezeTime assms(9) have s': "s' = s\<lparr>FreezeTime := clk 0\<rparr>"
        by (auto simp: I_FreezeTime_def)
      show ?thesis using assms(1,2,3,6) by (simp add: s')
    next
      case False
      with Op_FreezeTime assms(8) have frozen: "FreezeTime s \<noteq> 0" by simp
      from False Op_FreezeTime assms(9) have s': "s' = I_FreezeTime False (clk 0) (clk 1) s"
        by auto
      have le1: "FirstFrameStartTime s \<le> FreezeTime s"
        using assms(3,4) frozen by (blast intro: order_trans)
      have nz: "FirstFrameStartTime s + (clk 0 - FreezeTime s) \<noteq> 0"
        using assms(1) le1 assms(7) by (rule first_frame_shift_nonzero)
      have first: "FirstFrameStartTime s' = FirstFrameStartTime s + (clk 0 - FreezeTime s)"
        using nz by (simp add: s' I_FreezeTime_False_fields(3))
      have cur: "CurrentFrameStartTime s' = clk 1" and fr: "FreezeTime s' = 0"
        by (simp_all add: s' I_FreezeTime_False_fields)
      have "unat (FirstFrameStartTime s') = unat (FirstFrameStartTime s) + (unat (clk 0) - unat (FreezeTime s))"
        unfolding first using le1 assms(7) by (rule unat_first_frame_shift)
      moreover have "unat (FirstFrameStartTime s) \<le> unat (FreezeTime s)"
        "unat (FreezeTime s) \<le> unat (clk 0)"
        using le1 assms(7) by (simp_all add: word_le_nat_alt)
      moreover have "unat (clk 0) \<le> unat (clk 1)"
        using assms(5) [rule_format, of 0] by (simp add: word_le_nat_alt)
      ultimately have "unat (FirstFrameStartTime s') \<le> unat (clk 1)" by linarith
      then have order: "FirstFrameStartTime s' \<le> CurrentFrameStartTime s'"
        by (simp add: cur word_le_nat_alt)
      have "FirstFrameStartTime s' \<noteq> 0" using nz first by simp
      moreover from this order have "CurrentFrameStartTime s' \<noteq> 0" by auto
      ultimately show ?thesis using order fr by simp
    qed
  qed
qed

theorem frame_order_preserved_witness:
  "exec 35 (\<lambda>i. 900) (Op_FreezeTime False)
      \<lparr>FirstFrameStartTime = 100, CurrentFrameStartTime = 350, FreezeTime = 400\<rparr>
     = Some \<lparr>FirstFrameStartTime = 600, CurrentFrameStartTime = 900, FreezeTime = 0\<rparr>
   \<and> FirstFrameStartTime \<lparr>FirstFrameStartTime = 600, CurrentFrameStartTime = 900, FreezeTime = 0\<rparr>
     \<le> CurrentFrameStartTime \<lparr>FirstFrameStartTime = 600, CurrentFrameStartTime = 900, FreezeTime = 0\<rparr>"
proof -
  let ?s = "\<lparr>FirstFrameStartTime = 100, CurrentFrameStartTime = 350, FreezeTime = 400\<rparr>"
  let ?s' = "\<lparr>FirstFrameStartTime = 600, CurrentFrameStartTime = 900, FreezeTime = 0\<rparr>"
  let ?clk = "\<lambda>i::nat. 900 :: u64"
  have h1: "FirstFrameStartTime ?s \<noteq> 0" by simp
  have h2: "CurrentFrameStartTime ?s \<noteq> 0" by simp
  have h3: "FirstFrameStartTime ?s \<le> CurrentFrameStartTime ?s" by simp
  have h4: "FreezeTime ?s \<noteq> 0 \<longrightarrow> CurrentFrameStartTime ?s \<le> FreezeTime ?s" by simp
  have h5: "\<forall>i. ?clk i \<le> ?clk (Suc i)" by simp
  have h6: "CurrentFrameStartTime ?s \<le> ?clk 0" by simp
  have h7: "FreezeTime ?s \<le> ?clk 0" by simp
  have h8: "Op_FreezeTime False = Op_FreezeTime False \<longrightarrow> FreezeTime ?s \<noteq> 0" by simp
  have h9: "exec 35 ?clk (Op_FreezeTime False) ?s = Some ?s'"
    by (simp add: I_FreezeTime_def I_SetFrameTime_def Let_def)
  from frame_order_preserved [OF h1 h2 h3 h4 h5 h6 h7 h8 h9]
  have "FirstFrameStartTime ?s' \<le> CurrentFrameStartTime ?s'" by (rule conjunct1)
  with h9 show ?thesis by (rule conjI)
qed

end
